theory Spec2Isabelle
  imports Complex_Main
begin

section \<open>Data model of DVGeoSketch\<close>

text \<open>
  Numeric vectors (numpy arrays of Python floats) are lists of reals and matrices are lists
  of rows. No operation of this file computes with their entries, so the reals stand for
  the numbers that are passed around. The constructor does compute, with Python numbers:
  they are modelled below.
\<close>

type_synonym vec = "real list"
type_synonym matrix = "real list list"

text \<open>
  A Python dictionary keeps its keys in insertion order: an association list whose
  first components are pairwise distinct.
\<close>

type_synonym ('k, 'v) dict = "('k \<times> 'v) list"

text \<open>
  The exceptions that the code of this file can raise itself, and \<open>Raised\<close> for
  whatever an external collaborator (a subclass hook, the plotting library) raises.
\<close>

datatype error = AttributeError | KeyError | ZeroDivisionError | OverflowError | Raised string

section \<open>Python numbers\<close>

text \<open>
  A Python \<open>float\<close> is an IEEE 754 binary64 value: a finite number (the rational it
  denotes, with \<open>Num 0\<close> for \<open>0.0\<close>), the negative zero, an infinity or a NaN. A finite
  binary64 value is a multiple of \<open>2\<^sup>e\<close> with less than \<open>2\<^sup>5\<^sup>3\<close> in magnitude as a multiple,
  for an exponent \<open>e\<close> from \<open>-1074\<close> to \<open>971\<close>.
\<close>

datatype float64 = Num rat | NegZero | PInf | NInf | NaN

text \<open>The built-in numbers: \<open>int\<close> is unbounded, \<open>float\<close> is binary64.\<close>

datatype pynum = PyInt int | PyFloat float64

text \<open>The number of binary digits of a positive integer.\<close>

function bits :: "int \<Rightarrow> nat" where
  "bits n = (if n \<le> 0 then 0 else Suc (bits (n div 2)))"
  by pat_completeness auto
termination
  by (relation "measure nat") auto

declare bits.simps [simp del]

definition pow2 :: "int \<Rightarrow> rat" where
  "pow2 k = (if 0 \<le> k then of_int (2 ^ nat k) else 1 / of_int (2 ^ nat (- k)))"

text \<open>
  The binary exponent of a positive rational \<open>q\<close>: the \<open>k\<close> with \<open>2\<^sup>k \<le> q < 2\<^sup>k\<^sup>+\<^sup>1\<close>. The
  difference of the digit counts of numerator and denominator is that \<open>k\<close> or one more.
\<close>

definition ilog2 :: "rat \<Rightarrow> int" where
  "ilog2 q = (let (n, d) = quotient_of q; k = int (bits n) - int (bits d)
              in if pow2 k \<le> q then k else k - 1)"

text \<open>Rounding to the nearest integer, a tie going to the even one.\<close>

definition round_half_even :: "rat \<Rightarrow> int" where
  "round_half_even x =
     (let f = \<lfloor>x\<rfloor>; r = x - of_int f
      in if r < 1 / 2 then f else if 1 / 2 < r then f + 1 else if even f then f else f + 1)"

text \<open>
  Rounding a positive rational to binary64, to nearest with ties to even: the spacing of
  the binary64 values around \<open>q\<close> is \<open>2\<^sup>e\<close> with \<open>e\<close> 52 below the exponent of \<open>q\<close>, and
  \<open>-1074\<close> in the subnormal range. \<open>None\<close> is the overflow beyond the largest finite value.
\<close>

definition round64_mag :: "rat \<Rightarrow> rat option" where
  "round64_mag q =
     (let e = max (ilog2 q - 52) (- 1074);
          r = of_int (round_half_even (q / pow2 e)) * pow2 e
      in if pow2 1024 \<le> r then None else Some r)"

text \<open>
  Rounding an exact result to binary64. An overflow gives the infinity of its sign, and a
  nonzero result too small for a subnormal gives the zero of its sign.
\<close>

definition round64 :: "rat \<Rightarrow> float64" where
  "round64 q =
     (if q = 0 then Num 0
      else if 0 < q then (case round64_mag q of None \<Rightarrow> PInf | Some r \<Rightarrow> Num r)
      else (case round64_mag (- q) of
              None \<Rightarrow> NInf
            | Some r \<Rightarrow> if r = 0 then NegZero else Num (- r)))"

text \<open>A finite value is a binary64 value when rounding leaves it as it is.\<close>

definition is_float64 :: "float64 \<Rightarrow> bool" where
  "is_float64 x = (case x of Num q \<Rightarrow> round64 q = Num q | _ \<Rightarrow> True)"

definition is_zero :: "float64 \<Rightarrow> bool" where
  "is_zero x = (case x of Num q \<Rightarrow> q = 0 | NegZero \<Rightarrow> True | _ \<Rightarrow> False)"

definition is_inf :: "float64 \<Rightarrow> bool" where
  "is_inf x = (x = PInf \<or> x = NInf)"

text \<open>The sign bit.\<close>

definition negative :: "float64 \<Rightarrow> bool" where
  "negative x = (case x of Num q \<Rightarrow> q < 0 | NegZero \<Rightarrow> True | NInf \<Rightarrow> True | _ \<Rightarrow> False)"

definition signed_zero :: "bool \<Rightarrow> float64" where
  "signed_zero neg = (if neg then NegZero else Num 0)"

definition signed_inf :: "bool \<Rightarrow> float64" where
  "signed_inf neg = (if neg then NInf else PInf)"

text \<open>The rational that a finite value denotes.\<close>

definition rat_of :: "float64 \<Rightarrow> rat" where
  "rat_of x = (case x of Num q \<Rightarrow> q | _ \<Rightarrow> 0)"

text \<open>IEEE 754 division by a divisor that is not a zero.\<close>

definition ieee_div :: "float64 \<Rightarrow> float64 \<Rightarrow> float64" where
  "ieee_div a b =
     (let neg = (negative a \<noteq> negative b) in
      if a = NaN \<or> b = NaN then NaN
      else if is_inf a then (if is_inf b then NaN else signed_inf neg)
      else if is_inf b then signed_zero neg
      else if is_zero a then signed_zero neg
      else round64 (rat_of a / rat_of b))"

text \<open>
  Python's \<open>a / b\<close> on two floats: \<open>ZeroDivisionError\<close> when \<open>b\<close> is a zero of either
  sign, the IEEE quotient otherwise. An overflow of the quotient is not an error.
\<close>

definition float_div :: "float64 \<Rightarrow> float64 \<Rightarrow> error + float64" where
  "float_div a b = (if is_zero b then Inl ZeroDivisionError else Inr (ieee_div a b))"

text \<open>Python's \<open>a * b\<close> on two floats: the IEEE product, never an error.\<close>

definition float_mul :: "float64 \<Rightarrow> float64 \<Rightarrow> float64" where
  "float_mul a b =
     (let neg = (negative a \<noteq> negative b) in
      if a = NaN \<or> b = NaN then NaN
      else if is_inf a then (if is_zero b then NaN else signed_inf neg)
      else if is_inf b then (if is_zero a then NaN else signed_inf neg)
      else if is_zero a \<or> is_zero b then signed_zero neg
      else round64 (rat_of a * rat_of b))"

text \<open>
  The conversion of an operand of a float operation to a float. A float is taken as it
  is. An \<open>int\<close> is rounded to binary64, and raises \<open>OverflowError\<close> when it rounds beyond
  the largest finite value, that is from \<open>2\<^sup>1\<^sup>0\<^sup>2\<^sup>4 - 2\<^sup>9\<^sup>7\<^sup>0\<close> on in magnitude.
\<close>

definition to_double :: "pynum \<Rightarrow> error + float64" where
  "to_double x =
     (case x of
        PyFloat f \<Rightarrow> Inr f
      | PyInt n \<Rightarrow>
          if 2 ^ 1024 - 2 ^ 970 \<le> \<bar>n\<bar> then Inl OverflowError else Inr (round64 (of_int n)))"

text \<open>A number that is zero: the \<open>int\<close> zero, or the float zero of either sign.\<close>

definition is_zero_num :: "pynum \<Rightarrow> bool" where
  "is_zero_num x = (case x of PyInt n \<Rightarrow> n = 0 | PyFloat f \<Rightarrow> is_zero f)"

text \<open>An \<open>int\<close> that no float can hold, so that its conversion raises.\<close>

definition too_large :: "pynum \<Rightarrow> bool" where
  "too_large x = (case x of PyInt n \<Rightarrow> 2 ^ 1024 - 2 ^ 970 \<le> \<bar>n\<bar> | PyFloat f \<Rightarrow> False)"

text \<open>
  The design-variable objects stored in \<open>self.DVs\<close>. The methods below read the
  attributes \<open>name\<close>, \<open>nVal\<close>, \<open>value\<close>, \<open>lower\<close>, \<open>upper\<close> and \<open>scale\<close>; the
  composite design variable has the linear map \<open>u\<close> in addition.
\<close>

record designVariable =
  name :: string
  nVal :: nat
  dv_value :: vec
  lower :: vec
  upper :: vec
  scale :: vec

record compositeDV = designVariable +
  u :: matrix

text \<open>
  The attributes of the base class \<open>BaseDVGeometry\<close> that the methods of this file read.
  \<open>DVComposite\<close> is never assigned in this file; \<open>None\<close> stands for an attribute that
  holds \<open>None\<close>, on which \<open>.name\<close> raises \<open>AttributeError\<close>.
\<close>

record baseDVGeometry =
  fileName :: string
  DVComposite :: "compositeDV option"

text \<open>The object itself: the attributes assigned by \<open>__init__\<close>, in its order.\<close>

record 'comm dvGeoSketch = baseDVGeometry +
  modelScale :: pynum
  meshScale :: float64
  projTol :: float64
  updatedJac :: "(string, bool) dict"
  comm :: 'comm
  DVs :: "(string, designVariable) dict"
  useCompostiveDVs :: bool
  compositeDVs :: "compositeDV option"

text \<open>
  Methods that the file calls on \<open>self\<close> but that are defined in the base class or in a
  subclass. Each receives the object and may raise.
\<close>

record 'comm hooks =
  update :: "'comm dvGeoSketch \<Rightarrow> string \<Rightarrow> error + matrix"
  mapVecToDVGeo :: "'comm dvGeoSketch \<Rightarrow> vec \<Rightarrow> error + vec"
  convertSensitivityToDict :: "'comm dvGeoSketch \<Rightarrow> matrix \<Rightarrow> error + (string, vec) dict"
  convertDictToSensitivity :: "'comm dvGeoSketch \<Rightarrow> (string, vec) dict \<Rightarrow> error + vec"
  mapXDictToComp :: "'comm dvGeoSketch \<Rightarrow> (string, vec) dict \<Rightarrow> error + (string, vec) dict"

section \<open>Dictionary operations\<close>

definition keys :: "('k, 'v) dict \<Rightarrow> 'k list" where
  "keys d = map fst d"

text \<open>\<open>d[k]\<close>: raises \<open>KeyError\<close> on a missing key.\<close>

definition getitem :: "('k, 'v) dict \<Rightarrow> 'k \<Rightarrow> error + 'v" where
  "getitem d k = (case map_of d k of None \<Rightarrow> Inl KeyError | Some v \<Rightarrow> Inr v)"

text \<open>\<open>d[k] = v\<close>: an existing key keeps its position, a new key goes to the end.\<close>

fun setitem :: "('k, 'v) dict \<Rightarrow> 'k \<Rightarrow> 'v \<Rightarrow> ('k, 'v) dict" where
  "setitem [] k v = [(k, v)]"
| "setitem ((k', v') # d) k v = (if k' = k then (k, v) # d else (k', v') # setitem d k v)"

text \<open>
  \<open>d.pop(k)\<close> without a default: \<open>None\<close> stands for the \<open>KeyError\<close>, otherwise the value
  and the dictionary without the key.
\<close>

definition pop :: "('k, 'v) dict \<Rightarrow> 'k \<Rightarrow> ('v \<times> ('k, 'v) dict) option" where
  "pop d k = (case map_of d k of None \<Rightarrow> None | Some v \<Rightarrow> Some (v, filter (\<lambda>p. fst p \<noteq> k) d))"

section \<open>getValues and getVarNames\<close>

text \<open>
  The loop of \<open>getValues\<close>: \<open>for dvName in self.DVs: dvDict[dvName] = self.DVs[dvName].value\<close>.
\<close>

fun getValues_loop ::
  "string list \<Rightarrow> (string, designVariable) dict \<Rightarrow> (string, vec) dict \<Rightarrow> error + (string, vec) dict" where
  "getValues_loop [] dvs dvDict = Inr dvDict"
| "getValues_loop (dvName # rest) dvs dvDict =
     (case getitem dvs dvName of
        Inl e \<Rightarrow> Inl e
      | Inr dv \<Rightarrow> getValues_loop rest dvs (setitem dvDict dvName (dv_value dv)))"

definition getValues :: "'comm hooks \<Rightarrow> 'comm dvGeoSketch \<Rightarrow> error + (string, vec) dict" where
  "getValues hk self =
     (case getValues_loop (keys (DVs self)) (DVs self) [] of
        Inl e \<Rightarrow> Inl e
      | Inr dvDict \<Rightarrow>
          if useCompostiveDVs self then mapXDictToComp hk self dvDict else Inr dvDict)"

definition getVarNames :: "'comm dvGeoSketch \<Rightarrow> bool \<Rightarrow> error + string list" where
  "getVarNames self pyOptSparse =
     (if \<not> pyOptSparse \<or> \<not> useCompostiveDVs self then Inr (keys (DVs self))
      else (case compositeDVs self of
              None \<Rightarrow> Inl AttributeError
            | Some c \<Rightarrow> Inr [name c]))"

section \<open>mapXDictToDVGeo\<close>

text \<open>
  The method copies its argument and then mutates the copy, so dictionaries live in a
  store: an object reference is an index into the list of live dictionaries, and a new
  object takes the next index. The vectors stored under the keys are never written by
  this method and are held by value.
\<close>

type_synonym ref = nat
type_synonym heap = "(string, vec) dict list"

definition alloc :: "heap \<Rightarrow> (string, vec) dict \<Rightarrow> ref \<times> heap" where
  "alloc h d = (length h, h @ [d])"

text \<open>\<open>copy.deepcopy(inDict)\<close>: a new dictionary object with the same entries.\<close>

definition deepcopy :: "heap \<Rightarrow> ref \<Rightarrow> ref \<times> heap" where
  "deepcopy h r = alloc h (h ! r)"

text \<open>
  The merge loop \<open>for key in inDict: outDict[key] = inDict[key]\<close>, reading the object
  \<open>inD\<close> and writing the object \<open>outD\<close>.
\<close>

fun merge_loop :: "string list \<Rightarrow> ref \<Rightarrow> ref \<Rightarrow> heap \<Rightarrow> error option \<times> heap" where
  "merge_loop [] inD outD h = (None, h)"
| "merge_loop (key # rest) inD outD h =
     (case getitem (h ! inD) key of
        Inl e \<Rightarrow> (Some e, h)
      | Inr v \<Rightarrow> merge_loop rest inD outD (h[outD := setitem (h ! outD) key v]))"

text \<open>
  \<open>mapXDictToDVGeo(inDict)\<close>, from the store before the call to the outcome (the
  reference of the returned dictionary, or the exception) and the store after it.
  \<open>print(inDict)\<close> writes to standard output only and is left out.
  \<open>outVec.reshape(1, -1)\<close> is the matrix whose only row is \<open>outVec\<close>.
\<close>

definition mapXDictToDVGeo ::
  "'comm hooks \<Rightarrow> 'comm dvGeoSketch \<Rightarrow> heap \<Rightarrow> ref \<Rightarrow> (error + ref) \<times> heap" where
  "mapXDictToDVGeo hk self h inDict0 =
     (let (inDict, h1) = deepcopy h inDict0 in
      case DVComposite self of
        None \<Rightarrow> (Inl AttributeError, h1)
      | Some cdv \<Rightarrow>
          (case pop (h1 ! inDict) (name cdv) of
             None \<Rightarrow> (Inl KeyError, h1)
           | Some (userVec, remaining) \<Rightarrow>
               (let h2 = h1[inDict := remaining] in
                case mapVecToDVGeo hk self userVec of
                  Inl e \<Rightarrow> (Inl e, h2)
                | Inr outVec \<Rightarrow>
                    (case convertSensitivityToDict hk self [outVec] of
                       Inl e \<Rightarrow> (Inl e, h2)
                     | Inr converted \<Rightarrow>
                         (let (outDict, h3) = alloc h2 converted in
                          case merge_loop (keys (h3 ! inDict)) inDict outDict h3 of
                            (Some e, h4) \<Rightarrow> (Inl e, h4)
                          | (None, h4) \<Rightarrow> (Inr outDict, h4))))))"

section \<open>addVariablesPyOpt\<close>

text \<open>
  The optimisation problem is an external collaborator: it is the sequence of the
  registration calls it has received, each with the arguments of the call.
\<close>

datatype optCall =
  AddVarGroup (vg_name: string) (vg_nVal: nat) (vg_type: string)
    (vg_value: vec) (vg_lower: vec) (vg_upper: vec) (vg_scale: vec)
| AddConGroup (cg_name: string) (cg_size: nat) (cg_lower: vec) (cg_upper: vec)
    (cg_scale: real) (cg_linear: bool) (cg_wrt: string) (cg_jac: "(string, matrix) dict")

text \<open>
  Modelled from the spec: \<open>getNDV\<close> is defined outside this file; the spec gives the size
  of the constraint group as the total number of individual DV scalars, and the count of
  a design variable as its \<open>nVal\<close>.
\<close>

definition getNDV :: "'comm dvGeoSketch \<Rightarrow> nat" where
  "getNDV self = sum_list (map (\<lambda>p. nVal (snd p)) (DVs self))"

text \<open>
  The loop that collects the bounds:
  \<open>for dvName in self.DVs: dv = self.DVs[dvName]; lb[dvName] = dv.lower; ub[dvName] = dv.upper\<close>.
\<close>

fun bounds_loop ::
  "string list \<Rightarrow> (string, designVariable) dict \<Rightarrow> (string, vec) dict \<times> (string, vec) dict
     \<Rightarrow> error + (string, vec) dict \<times> (string, vec) dict" where
  "bounds_loop [] dvs (lb, ub) = Inr (lb, ub)"
| "bounds_loop (dvName # rest) dvs (lb, ub) =
     (case getitem dvs dvName of
        Inl e \<Rightarrow> Inl e
      | Inr dv \<Rightarrow> bounds_loop rest dvs (setitem lb dvName (lower dv), setitem ub dvName (upper dv)))"

text \<open>The loop of the non-composite branch: one variable group for each design variable.\<close>

fun addVarGroups_loop ::
  "string list \<Rightarrow> (string, designVariable) dict \<Rightarrow> optCall list \<Rightarrow> error option \<times> optCall list" where
  "addVarGroups_loop [] dvs optProb = (None, optProb)"
| "addVarGroups_loop (dvName # rest) dvs optProb =
     (case getitem dvs dvName of
        Inl e \<Rightarrow> (Some e, optProb)
      | Inr dv \<Rightarrow>
          addVarGroups_loop rest dvs
            (optProb @ [AddVarGroup (name dv) (nVal dv) ''c'' (dv_value dv) (lower dv) (upper dv) (scale dv)]))"

definition addVariablesPyOpt ::
  "'comm hooks \<Rightarrow> 'comm dvGeoSketch \<Rightarrow> optCall list \<Rightarrow> error option \<times> optCall list" where
  "addVariablesPyOpt hk self optProb =
     (if useCompostiveDVs self then
        (case compositeDVs self of
           None \<Rightarrow> (Some AttributeError, optProb)
         | Some dv \<Rightarrow>
             (let optProb1 = optProb @
                    [AddVarGroup (name dv) (nVal dv) ''c'' (dv_value dv) (lower dv) (upper dv) (scale dv)]
              in case bounds_loop (keys (DVs self)) (DVs self) ([], []) of
                   Inl e \<Rightarrow> (Some e, optProb1)
                 | Inr (lb, ub) \<Rightarrow>
                     (case convertDictToSensitivity hk self lb of
                        Inl e \<Rightarrow> (Some e, optProb1)
                      | Inr lb' \<Rightarrow>
                          (case convertDictToSensitivity hk self ub of
                             Inl e \<Rightarrow> (Some e, optProb1)
                           | Inr ub' \<Rightarrow>
                               (case DVComposite self of
                                  None \<Rightarrow> (Some AttributeError, optProb1)
                                | Some cdv \<Rightarrow>
                                    (None, optProb1 @
                                       [AddConGroup (name cdv @ ''_con'') (getNDV self) lb' ub' 1 True
                                          (name cdv) [(name cdv, u cdv)]]))))))
      else addVarGroups_loop (keys (DVs self)) (DVs self) optProb)"

section \<open>writePointSet\<close>

text \<open>
  The plotting library is external. A file it has opened is a record of the path, the
  dimension given at opening, whether the handle is still open, and the zones written;
  a handle is the index of its file. \<open>open_error\<close> and \<open>write_error\<close> say when
  the library raises.
\<close>

record tecfile =
  path :: string
  ndim :: nat
  is_open :: bool
  zones :: "(string \<times> matrix) list"

type_synonym files = "tecfile list"

record tecplot =
  open_error :: "string \<Rightarrow> error option"
  write_error :: "string \<Rightarrow> matrix \<Rightarrow> error option"

definition openTecplot :: "tecplot \<Rightarrow> string \<Rightarrow> nat \<Rightarrow> files \<Rightarrow> error + nat \<times> files" where
  "openTecplot tp fname n fs =
     (case open_error tp fname of
        Some e \<Rightarrow> Inl e
      | None \<Rightarrow> Inr (length fs, fs @ [\<lparr>path = fname, ndim = n, is_open = True, zones = []\<rparr>]))"

definition writeTecplot1D :: "tecplot \<Rightarrow> nat \<Rightarrow> string \<Rightarrow> matrix \<Rightarrow> files \<Rightarrow> error + files" where
  "writeTecplot1D tp f zname coords fs =
     (case write_error tp zname coords of
        Some e \<Rightarrow> Inl e
      | None \<Rightarrow> Inr (fs[f := (fs ! f)\<lparr>zones := zones (fs ! f) @ [(zname, coords)]\<rparr>]))"

definition closeTecplot :: "nat \<Rightarrow> files \<Rightarrow> files" where
  "closeTecplot f fs = fs[f := (fs ! f)\<lparr>is_open := False\<rparr>]"

text \<open>
  \<open>writePointSet(name, fileName)\<close>: the exception raised, if any, and the files after the
  call. \<open>"_%s.dat" % name\<close> on a string \<open>name\<close> is \<open>"_" + name + ".dat"\<close>.
\<close>

definition writePointSet ::
  "'comm hooks \<Rightarrow> tecplot \<Rightarrow> 'comm dvGeoSketch \<Rightarrow> string \<Rightarrow> string \<Rightarrow> files \<Rightarrow> error option \<times> files" where
  "writePointSet hk tp self pname fname fs =
     (case update hk self pname of
        Inl e \<Rightarrow> (Some e, fs)
      | Inr coords \<Rightarrow>
          (let fname' = fname @ ''_'' @ pname @ ''.dat'' in
           case openTecplot tp fname' 3 fs of
             Inl e \<Rightarrow> (Some e, fs)
           | Inr (f, fs1) \<Rightarrow>
               (case writeTecplot1D tp f pname coords fs1 of
                  Inl e \<Rightarrow> (Some e, fs1)
                | Inr fs2 \<Rightarrow> (None, closeTecplot f fs2))))"

text \<open>No handle opened since \<open>fs\<close> is still open in \<open>fs'\<close>.\<close>

definition no_leak :: "files \<Rightarrow> files \<Rightarrow> bool" where
  "no_leak fs fs' = list_all (\<lambda>f. \<not> is_open f) (drop (length fs) fs')"

section \<open>The constructor\<close>

text \<open>
  \<open>__init__(fileName, comm, scale, projTol)\<close>, for \<open>scale\<close> and \<open>projTol\<close> of the built-in
  types \<open>int\<close> and \<open>float\<close>. The constructor of the base class is outside this file and is
  a parameter: it gives the base attributes or raises. \<open>1.0 / scale\<close> converts \<open>scale\<close>
  to a float and divides; \<open>projTol * self.meshScale\<close> converts \<open>projTol\<close> and multiplies.
\<close>

definition DVGeoSketch_init ::
  "(string \<Rightarrow> error + baseDVGeometry) \<Rightarrow> string \<Rightarrow> 'comm \<Rightarrow> pynum \<Rightarrow> pynum \<Rightarrow> error + 'comm dvGeoSketch" where
  "DVGeoSketch_init super_init fname cm scl tol =
     (case super_init fname of
        Inl e \<Rightarrow> Inl e
      | Inr base \<Rightarrow>
          (case to_double scl of
             Inl e \<Rightarrow> Inl e
           | Inr s \<Rightarrow>
               (case float_div (Num 1) s of
                  Inl e \<Rightarrow> Inl e
                | Inr mesh \<Rightarrow>
                    (case to_double tol of
                       Inl e \<Rightarrow> Inl e
                     | Inr t \<Rightarrow>
                         Inr \<lparr>fileName = fileName base, DVComposite = DVComposite base,
                              modelScale = scl, meshScale = mesh, projTol = float_mul t mesh,
                              updatedJac = [], comm = cm, DVs = [],
                              useCompostiveDVs = False, compositeDVs = None\<rparr>))))"

section \<open>Example objects\<close>

text \<open>
  A registry with the design variables \<open>twist\<close> (three scalars) and \<open>shape\<close> (one),
  with or without a composite design variable over them, and hooks that return normally.
\<close>

definition twist :: designVariable where
  "twist = \<lparr>name = ''twist'', nVal = 3, dv_value = [0, 1, 2],
            lower = [-5, -5, -5], upper = [5, 5, 5], scale = [1, 1, 1]\<rparr>"

definition shape :: designVariable where
  "shape = \<lparr>name = ''shape'', nVal = 1, dv_value = [1 / 2], lower = [-1], upper = [1], scale = [1]\<rparr>"

definition pca :: compositeDV where
  "pca = \<lparr>name = ''pca'', nVal = 2, dv_value = [0, 0], lower = [-10, -10], upper = [10, 10],
          scale = [1, 1], u = [[1, 0], [0, 1], [0, 0], [0, 0]]\<rparr>"

definition example_sketch :: "bool \<Rightarrow> unit dvGeoSketch" where
  "example_sketch composite =
     \<lparr>fileName = ''wing.vsp3'', DVComposite = (if composite then Some pca else None),
      modelScale = PyFloat (Num 1), meshScale = Num 1, projTol = Num (1 / 128),
      updatedJac = [], comm = (),
      DVs = [(''twist'', twist), (''shape'', shape)],
      useCompostiveDVs = composite, compositeDVs = (if composite then Some pca else None)\<rparr>"

definition example_hooks :: "unit hooks" where
  "example_hooks =
     \<lparr>update = (\<lambda>self pname. Inr [[0, 0, 0], [1, 0, 0], [1, 1, 0]]),
      mapVecToDVGeo = (\<lambda>self v. Inr (v @ [0, 0])),
      convertSensitivityToDict =
        (\<lambda>self m. Inr [(''twist'', take 3 (concat m)), (''shape'', drop 3 (concat m))]),
      convertDictToSensitivity = (\<lambda>self d. Inr (concat (map snd d))),
      mapXDictToComp = (\<lambda>self d. Inr [(''pca'', take 2 (concat (map snd d)))])\<rparr>"

text \<open>
  A constructor of the base class that returns, the scale \<open>0.0254\<close> of a model in inches
  for a mesh in meters and the default tolerance \<open>0.01\<close>, each the binary64 value that
  Python reads from the literal.
\<close>

definition example_base_init :: "string \<Rightarrow> error + baseDVGeometry" where
  "example_base_init f = Inr \<lparr>fileName = f, DVComposite = None\<rparr>"

definition inch_scale :: float64 where
  "inch_scale = Num (3660525777126739 / 144115188075855872)"

definition default_projTol :: float64 where
  "default_projTol = Num (5764607523034235 / 576460752303423488)"

text \<open>A plotting library that never raises, and one whose write raises.\<close>

definition working_tecplot :: tecplot where
  "working_tecplot = \<lparr>open_error = (\<lambda>fname. None), write_error = (\<lambda>zname coords. None)\<rparr>"

definition failing_tecplot :: tecplot where
  "failing_tecplot =
     \<lparr>open_error = (\<lambda>fname. None), write_error = (\<lambda>zname coords. Some (Raised ''write failed''))\<rparr>"

section \<open>The dictionaries of bounds\<close>

text \<open>
  The dictionaries \<open>{dvName: dv.lower}\<close> and \<open>{dvName: dv.upper}\<close> over a registry, in
  its order.
\<close>

definition lower_bounds :: "(string, designVariable) dict \<Rightarrow> (string, vec) dict" where
  "lower_bounds dvs = map (\<lambda>p. (fst p, lower (snd p))) dvs"

definition upper_bounds :: "(string, designVariable) dict \<Rightarrow> (string, vec) dict" where
  "upper_bounds dvs = map (\<lambda>p. (fst p, upper (snd p))) dvs"

section \<open>Dictionaries\<close>

lemma setitem_new: "k \<notin> set (keys d) \<Longrightarrow> setitem d k v = d @ [(k, v)]"
  by (induction d) (auto simp: keys_def)

lemma getitem_member: "distinct (keys d) \<Longrightarrow> (k, v) \<in> set d \<Longrightarrow> getitem d k = Inr v"
  by (simp add: getitem_def keys_def)

lemma map_of_setitem: "map_of (setitem d k v) = (map_of d)(k \<mapsto> v)"
  by (induction d) (auto simp: fun_eq_iff)

lemma keys_dom: "set (keys d) = dom (map_of d)"
  by (simp add: keys_def dom_map_of_conv_image_fst)

lemma keys_Cons: "keys (p # d) = fst p # keys d"
  by (simp add: keys_def)

lemma map_of_filter_key: "map_of (filter (\<lambda>p. fst p \<noteq> k) d) = (map_of d)(k := None)"
  by (induction d) (auto simp: fun_eq_iff)

lemma pop_Some:
  "map_of d k = Some v \<Longrightarrow> pop d k = Some (v, filter (\<lambda>p. fst p \<noteq> k) d)"
  by (simp add: pop_def)

lemma pop_None: "map_of d k = None \<Longrightarrow> pop d k = None"
  by (simp add: pop_def)

section \<open>getValues\<close>

text \<open>
  The loop has reached the entries \<open>suf\<close> of the registry \<open>pre @ suf\<close> with the values of
  \<open>pre\<close> collected: it ends with the values of the whole registry, in its order.
\<close>

lemma getValues_loop_suffix:
  "distinct (keys (pre @ suf)) \<Longrightarrow>
   getValues_loop (keys suf) (pre @ suf) (map (\<lambda>p. (fst p, dv_value (snd p))) pre)
     = Inr (map (\<lambda>p. (fst p, dv_value (snd p))) (pre @ suf))"
proof (induction suf arbitrary: pre)
  case Nil
  then show ?case by (simp add: keys_def)
next
  case (Cons p suf)
  obtain k dv where p: "p = (k, dv)" by (cases p)
  from Cons.prems have fresh: "k \<notin> set (keys (map (\<lambda>p. (fst p, dv_value (snd p))) pre))"
    by (auto simp: keys_def p image_iff)
  have look: "getitem (pre @ p # suf) k = Inr dv"
    using Cons.prems by (intro getitem_member) (auto simp: p)
  have "getValues_loop (keys suf) ((pre @ [p]) @ suf) (map (\<lambda>p. (fst p, dv_value (snd p))) (pre @ [p]))
      = Inr (map (\<lambda>p. (fst p, dv_value (snd p))) ((pre @ [p]) @ suf))"
    using Cons.prems by (intro Cons.IH) simp
  then show ?case
    using look fresh by (simp add: keys_Cons p setitem_new)
qed

text \<open>
  C8: when composite mode is inactive, \<open>getValues\<close> returns the dictionary whose keys are
  the names in the registry, in the registry's (insertion) order, each with the current
  value of its design variable. The registry is an ordered dictionary, so its keys are
  distinct.
\<close>

theorem getValues_registry_order:
  "\<not> useCompostiveDVs self \<Longrightarrow> distinct (keys (DVs self)) \<Longrightarrow>
   getValues hk self = Inr (map (\<lambda>p. (fst p, dv_value (snd p))) (DVs self))"
  using getValues_loop_suffix [of "[]" "DVs self"] by (simp add: getValues_def)

theorem getValues_registry_order_witness:
  "\<not> useCompostiveDVs (example_sketch False) \<and> distinct (keys (DVs (example_sketch False)))
   \<and> getValues example_hooks (example_sketch False) = Inr [(''twist'', [0, 1, 2]), (''shape'', [1 / 2])]"
  using getValues_registry_order [of "example_sketch False" example_hooks]
  by (simp add: example_sketch_def keys_def twist_def shape_def)

section \<open>getVarNames\<close>

text \<open>
  C4: with the optimizer flag set and composite mode active, \<open>getVarNames\<close> returns the
  singleton list of the composite design variable's name; with the flag unset or composite
  mode inactive it returns the names of the registry in insertion order. Unless the
  registry's names are themselves that singleton list, the result for the optimizer is
  the composite name alone if and only if composite mode is active.
\<close>

theorem getVarNames_cases:
  "(useCompostiveDVs self \<and> compositeDVs self = Some c \<longrightarrow> getVarNames self True = Inr [name c])
   \<and> (\<not> useCompostiveDVs self \<longrightarrow> getVarNames self True = Inr (keys (DVs self)))
   \<and> getVarNames self False = Inr (keys (DVs self))
   \<and> (compositeDVs self = Some c \<and> keys (DVs self) \<noteq> [name c] \<longrightarrow>
        (getVarNames self True = Inr [name c] \<longleftrightarrow> useCompostiveDVs self))"
  by (auto simp: getVarNames_def)

theorem getVarNames_cases_witness:
  "getVarNames (example_sketch True) True = Inr [''pca'']
   \<and> getVarNames (example_sketch True) False = Inr [''twist'', ''shape'']
   \<and> useCompostiveDVs (example_sketch True)
   \<and> compositeDVs (example_sketch True) = Some pca
   \<and> keys (DVs (example_sketch True)) \<noteq> [name pca]
   \<and> \<not> useCompostiveDVs (example_sketch False)
   \<and> getVarNames (example_sketch False) True = Inr [''twist'', ''shape'']"
  using getVarNames_cases [of "example_sketch True" pca]
    getVarNames_cases [of "example_sketch False" pca]
  by (simp add: example_sketch_def keys_def pca_def)

section \<open>mapXDictToDVGeo\<close>

text \<open>
  The merge loop writes the object \<open>outD\<close> only: every object below it is as before.
\<close>

lemma merge_loop_prefix:
  "n \<le> outD \<Longrightarrow> take n (snd (merge_loop ks inD outD h)) = take n h"
  by (induction ks arbitrary: h) (auto split: sum.splits)

text \<open>
  The merge loop on two different objects ends normally when its keys are keys of the
  object read, and the object written then holds the entry of the object read under each
  of these keys and its former entry under every other key.
\<close>

lemma merge_loop_result:
  "inD \<noteq> outD \<Longrightarrow> outD < length h \<Longrightarrow> set ks \<subseteq> set (keys (h ! inD)) \<Longrightarrow>
   \<exists>d'. merge_loop ks inD outD h = (None, h[outD := d'])
        \<and> map_of d' = (\<lambda>k. if k \<in> set ks then map_of (h ! inD) k else map_of (h ! outD) k)"
proof (induction ks arbitrary: h)
  case Nil
  have "h = h[outD := h ! outD]" by simp
  then show ?case by (intro exI[of _ "h ! outD"]) simp
next
  case (Cons key rest)
  from Cons.prems(3) obtain v where v: "map_of (h ! inD) key = Some v"
    by (auto simp: keys_dom)
  let ?h = "h[outD := setitem (h ! outD) key v]"
  have inD: "?h ! inD = h ! inD" using Cons.prems(1) by simp
  have outD: "?h ! outD = setitem (h ! outD) key v" using Cons.prems(2) by simp
  have "\<exists>d'. merge_loop rest inD outD ?h = (None, ?h[outD := d'])
        \<and> map_of d' = (\<lambda>k. if k \<in> set rest then map_of (?h ! inD) k else map_of (?h ! outD) k)"
    using Cons.prems by (intro Cons.IH) (simp_all add: inD)
  then obtain d' where d': "merge_loop rest inD outD ?h = (None, h[outD := d'])"
    "map_of d' = (\<lambda>k. if k \<in> set rest then map_of (h ! inD) k else map_of (setitem (h ! outD) key v) k)"
    unfolding inD outD list_update_overwrite by blast
  have "merge_loop (key # rest) inD outD h = (None, h[outD := d'])"
    using v d'(1) by (simp add: getitem_def)
  moreover have "map_of d' = (\<lambda>k. if k \<in> set (key # rest) then map_of (h ! inD) k else map_of (h ! outD) k)"
    using v by (auto simp: d'(2) map_of_setitem fun_eq_iff)
  ultimately show ?case by blast
qed

text \<open>
  C5: when the composite design variable is set and the input dictionary has no entry
  under its name, \<open>mapXDictToDVGeo\<close> raises \<open>KeyError\<close> and returns no dictionary. The
  method does not read the composite-mode flag, so this holds whatever the flag is.
\<close>

theorem mapXDictToDVGeo_missing_key:
  "DVComposite self = Some cdv \<Longrightarrow> inDict < length h \<Longrightarrow>
   map_of (h ! inDict) (name cdv) = None \<Longrightarrow>
   fst (mapXDictToDVGeo hk self h inDict) = Inl KeyError"
  by (simp add: mapXDictToDVGeo_def deepcopy_def alloc_def pop_None)

theorem mapXDictToDVGeo_missing_key_witness:
  "DVComposite (example_sketch True) = Some pca \<and> (0::nat) < length [[(''alpha'', [3::real])]]
   \<and> map_of ([[(''alpha'', [3::real])]] ! 0) (name pca) = None
   \<and> fst (mapXDictToDVGeo example_hooks (example_sketch True) [[(''alpha'', [3])]] 0) = Inl KeyError"
  using mapXDictToDVGeo_missing_key [of "example_sketch True" pca 0 "[[(''alpha'', [3])]]" example_hooks]
  by (simp add: example_sketch_def pca_def)

text \<open>
  C6: \<open>mapXDictToDVGeo\<close> leaves every object that was live before the call as it was,
  the caller's input dictionary among them, whether the call returns or raises: the store
  before the call is an initial segment of the store after it.
\<close>

theorem mapXDictToDVGeo_frame:
  "take (length h) (snd (mapXDictToDVGeo hk self h inDict)) = h
   \<and> (inDict < length h \<longrightarrow> snd (mapXDictToDVGeo hk self h inDict) ! inDict = h ! inDict)"
proof -
  have pre: "take (length h) (snd (mapXDictToDVGeo hk self h inDict)) = h"
  proof (cases "DVComposite self")
    case None
    then show ?thesis by (simp add: mapXDictToDVGeo_def deepcopy_def alloc_def)
  next
    case (Some cdv)
    show ?thesis
    proof (cases "pop (h ! inDict) (name cdv)")
      case None
      then show ?thesis using Some by (simp add: mapXDictToDVGeo_def deepcopy_def alloc_def)
    next
      case popped: (Some p)
      obtain userVec remaining where p: "p = (userVec, remaining)" by (cases p)
      show ?thesis
      proof (cases "mapVecToDVGeo hk self userVec")
        case (Inl e)
        then show ?thesis using Some popped p
          by (simp add: mapXDictToDVGeo_def deepcopy_def alloc_def)
      next
        case outVec: (Inr outVec)
        show ?thesis
        proof (cases "convertSensitivityToDict hk self [outVec]")
          case (Inl e)
          then show ?thesis using Some popped p outVec
            by (simp add: mapXDictToDVGeo_def deepcopy_def alloc_def)
        next
          case (Inr converted)
          let ?h3 = "h @ [remaining, converted]"
          obtain e4 h4 where loop: "merge_loop (keys remaining) (length h) (Suc (length h)) ?h3 = (e4, h4)"
            by (cases "merge_loop (keys remaining) (length h) (Suc (length h)) ?h3")
          have "take (length h) (snd (merge_loop (keys remaining) (length h) (Suc (length h)) ?h3))
                  = take (length h) ?h3"
            by (rule merge_loop_prefix) simp
          then have "take (length h) h4 = h" by (simp add: loop)
          then show ?thesis using Some popped p outVec Inr loop
            by (cases e4) (simp_all add: mapXDictToDVGeo_def deepcopy_def alloc_def)
        qed
      qed
    qed
  qed
  have "snd (mapXDictToDVGeo hk self h inDict) ! inDict = h ! inDict" if "inDict < length h"
  proof -
    have "take (length h) (snd (mapXDictToDVGeo hk self h inDict)) ! inDict = h ! inDict"
      by (simp only: pre)
    then show ?thesis using that by simp
  qed
  with pre show ?thesis by blast
qed

theorem mapXDictToDVGeo_frame_witness:
  "snd (mapXDictToDVGeo example_hooks (example_sketch True) [[(''pca'', [1, 2]), (''alpha'', [3])]] 0) ! 0
     = [(''pca'', [1, 2]), (''alpha'', [3])]
   \<and> snd (mapXDictToDVGeo example_hooks (example_sketch True) [[(''alpha'', [3])]] 0) ! 0
     = [(''alpha'', [3])]"
  using mapXDictToDVGeo_frame [of "[[(''pca'', [1, 2]), (''alpha'', [3])]]" example_hooks "example_sketch True" 0]
    mapXDictToDVGeo_frame [of "[[(''alpha'', [3])]]" example_hooks "example_sketch True" 0]
  by simp

text \<open>
  C7: for an input dictionary that holds the composite design variable's key, with the two
  conversion hooks returning normally, \<open>mapXDictToDVGeo\<close> returns a dictionary in which
  every key of the input other than the composite name has its input value, which holds
  every key that the conversion of the composite entry produced, and which holds the
  composite name only if the conversion produced it. A key that the input does not hold
  has the value that the conversion gave it.
\<close>

theorem mapXDictToDVGeo_result:
  assumes comp: "DVComposite self = Some cdv"
    and live: "inDict < length h"
    and key: "map_of (h ! inDict) (name cdv) = Some userVec"
    and mapped: "mapVecToDVGeo hk self userVec = Inr outVec"
    and conv: "convertSensitivityToDict hk self [outVec] = Inr converted"
  shows "\<exists>outDict h'. mapXDictToDVGeo hk self h inDict = (Inr outDict, h')
      \<and> (\<forall>k v. k \<noteq> name cdv \<and> map_of (h ! inDict) k = Some v \<longrightarrow> map_of (h' ! outDict) k = Some v)
      \<and> (name cdv \<notin> set (keys converted) \<longrightarrow> name cdv \<notin> set (keys (h' ! outDict)))
      \<and> set (keys converted) \<subseteq> set (keys (h' ! outDict))
      \<and> (\<forall>k. k \<notin> set (keys (h ! inDict)) \<longrightarrow> map_of (h' ! outDict) k = map_of converted k)"
proof -
  let ?remaining = "filter (\<lambda>p. fst p \<noteq> name cdv) (h ! inDict)"
  let ?h3 = "h @ [?remaining, converted]"
  let ?in = "length h"
  let ?out = "Suc (length h)"
  have rem: "map_of ?remaining = (map_of (h ! inDict))(name cdv := None)"
    by (rule map_of_filter_key)
  have in3: "?h3 ! ?in = ?remaining" and out3: "?h3 ! ?out = converted"
    by (simp_all add: nth_append)
  have "\<exists>d'. merge_loop (keys ?remaining) ?in ?out ?h3 = (None, ?h3[?out := d'])
          \<and> map_of d' = (\<lambda>k. if k \<in> set (keys ?remaining) then map_of (?h3 ! ?in) k
                               else map_of (?h3 ! ?out) k)"
    by (rule merge_loop_result) (simp_all add: nth_append)
  then obtain d' where loop: "merge_loop (keys ?remaining) ?in ?out ?h3 = (None, ?h3[?out := d'])"
    and d': "map_of d' = (\<lambda>k. if k \<in> set (keys ?remaining) then map_of ?remaining k
                                 else map_of converted k)"
    unfolding in3 out3 by blast
  have call: "mapXDictToDVGeo hk self h inDict = (Inr ?out, ?h3[?out := d'])"
    using comp key mapped conv loop
    by (simp add: mapXDictToDVGeo_def deepcopy_def alloc_def pop_Some)
  have out: "?h3[?out := d'] ! ?out = d'"
    by (simp add: nth_append)
  have through: "map_of d' k = Some v" if "k \<noteq> name cdv" "map_of (h ! inDict) k = Some v" for k v
    using that by (auto simp: d' rem keys_dom)
  have nocomp: "name cdv \<notin> set (keys d')" if "name cdv \<notin> set (keys converted)"
    using that by (auto simp: keys_dom d' rem split: if_splits)
  have full: "set (keys converted) \<subseteq> set (keys d')"
    by (auto simp: keys_dom d' rem)
  have other: "map_of d' k = map_of converted k" if "k \<notin> set (keys (h ! inDict))" for k
    using that by (auto simp: keys_dom d' rem)
  let ?h' = "?h3[?out := d']"
  have "mapXDictToDVGeo hk self h inDict = (Inr ?out, ?h')
      \<and> (\<forall>k v. k \<noteq> name cdv \<and> map_of (h ! inDict) k = Some v \<longrightarrow> map_of (?h' ! ?out) k = Some v)
      \<and> (name cdv \<notin> set (keys converted) \<longrightarrow> name cdv \<notin> set (keys (?h' ! ?out)))
      \<and> set (keys converted) \<subseteq> set (keys (?h' ! ?out))
      \<and> (\<forall>k. k \<notin> set (keys (h ! inDict)) \<longrightarrow> map_of (?h' ! ?out) k = map_of converted k)"
    unfolding out using call through nocomp full other by blast
  then show ?thesis by (intro exI)
qed

theorem mapXDictToDVGeo_result_witness:
  "DVComposite (example_sketch True) = Some pca
   \<and> map_of ([[(''pca'', [1, 2]), (''alpha'', [3])]] ! 0) (name pca) = Some [1, 2]
   \<and> mapVecToDVGeo example_hooks (example_sketch True) [1, 2] = Inr [1, 2, 0, 0]
   \<and> convertSensitivityToDict example_hooks (example_sketch True) [[1, 2, 0, 0]]
        = Inr [(''twist'', [1, 2, 0]), (''shape'', [0])]
   \<and> mapXDictToDVGeo example_hooks (example_sketch True) [[(''pca'', [1, 2]), (''alpha'', [3])]] 0
        = (Inr 2, [[(''pca'', [1, 2]), (''alpha'', [3])], [(''alpha'', [3])],
                   [(''twist'', [1, 2, 0]), (''shape'', [0]), (''alpha'', [3])]])"
  using mapXDictToDVGeo_result [of "example_sketch True" pca 0 "[[(''pca'', [1, 2]), (''alpha'', [3])]]"
      "[1, 2]" example_hooks "[1, 2, 0, 0]" "[(''twist'', [1, 2, 0]), (''shape'', [0])]"]
  by (simp add: example_sketch_def example_hooks_def pca_def mapXDictToDVGeo_def deepcopy_def
      alloc_def pop_def keys_def getitem_def)

section \<open>addVariablesPyOpt\<close>

lemma keys_bounds: "keys (lower_bounds d) = keys d" "keys (upper_bounds d) = keys d"
  by (simp_all add: keys_def lower_bounds_def upper_bounds_def comp_def)

lemma bounds_snoc:
  "lower_bounds (pre @ [(k, dv)]) = lower_bounds pre @ [(k, lower dv)]"
  "upper_bounds (pre @ [(k, dv)]) = upper_bounds pre @ [(k, upper dv)]"
  by (simp_all add: lower_bounds_def upper_bounds_def)

lemma bounds_loop_suffix:
  "distinct (keys (pre @ suf)) \<Longrightarrow>
   bounds_loop (keys suf) (pre @ suf) (lower_bounds pre, upper_bounds pre)
     = Inr (lower_bounds (pre @ suf), upper_bounds (pre @ suf))"
proof (induction suf arbitrary: pre)
  case Nil
  then show ?case by (simp add: keys_def)
next
  case (Cons p suf)
  obtain k dv where p: "p = (k, dv)" by (cases p)
  from Cons.prems have fresh: "k \<notin> set (keys pre)"
    by (auto simp: keys_def p)
  have look: "getitem (pre @ p # suf) k = Inr dv"
    using Cons.prems by (intro getitem_member) (auto simp: p)
  have "bounds_loop (keys suf) ((pre @ [p]) @ suf) (lower_bounds (pre @ [p]), upper_bounds (pre @ [p]))
      = Inr (lower_bounds ((pre @ [p]) @ suf), upper_bounds ((pre @ [p]) @ suf))"
    using Cons.prems by (intro Cons.IH) simp
  then show ?case
    using look fresh by (simp add: keys_Cons p setitem_new keys_bounds bounds_snoc)
qed

lemma bounds_loop_registry:
  "distinct (keys dvs) \<Longrightarrow>
   bounds_loop (keys dvs) dvs ([], []) = Inr (lower_bounds dvs, upper_bounds dvs)"
  using bounds_loop_suffix [of "[]" dvs] by (simp add: lower_bounds_def upper_bounds_def)

text \<open>
  C2: in composite mode, with the composite design variable set and the conversion of the
  bounds returning normally, \<open>addVariablesPyOpt\<close> makes exactly two registrations and
  returns: one variable group with the composite design variable's name, count, value,
  bounds and scale, and one linear constraint group named after the composite design
  variable with the suffix \<open>_con\<close>, whose size is the total count of the individual
  design variables and whose Jacobian is the stored map \<open>u\<close> under the composite name.
  No individual design variable is registered. The variable group is read from
  \<open>self.compositeDVs\<close> and the constraint group from \<open>self.DVComposite\<close>.
\<close>

theorem addVariablesPyOpt_composite:
  assumes "useCompostiveDVs self"
    and "compositeDVs self = Some dv" and "DVComposite self = Some cdv"
    and "distinct (keys (DVs self))"
    and "convertDictToSensitivity hk self (lower_bounds (DVs self)) = Inr lb"
    and "convertDictToSensitivity hk self (upper_bounds (DVs self)) = Inr ub"
  shows "addVariablesPyOpt hk self optProb =
     (None, optProb @
        [AddVarGroup (name dv) (nVal dv) ''c'' (dv_value dv) (lower dv) (upper dv) (scale dv),
         AddConGroup (name cdv @ ''_con'') (sum_list (map (\<lambda>p. nVal (snd p)) (DVs self)))
           lb ub 1 True (name cdv) [(name cdv, u cdv)]])"
  using assms by (simp add: addVariablesPyOpt_def bounds_loop_registry getNDV_def)

theorem addVariablesPyOpt_composite_witness:
  "useCompostiveDVs (example_sketch True)
   \<and> compositeDVs (example_sketch True) = Some pca \<and> DVComposite (example_sketch True) = Some pca
   \<and> distinct (keys (DVs (example_sketch True)))
   \<and> addVariablesPyOpt example_hooks (example_sketch True) [] =
       (None, [AddVarGroup ''pca'' 2 ''c'' [0, 0] [-10, -10] [10, 10] [1, 1],
               AddConGroup ''pca_con'' 4 [-5, -5, -5, -1] [5, 5, 5, 1] 1 True ''pca''
                 [(''pca'', [[1, 0], [0, 1], [0, 0], [0, 0]])]])"
  using addVariablesPyOpt_composite [of "example_sketch True" pca pca example_hooks
      "[-5, -5, -5, -1]" "[5, 5, 5, 1]" "[]"]
  by (simp add: example_sketch_def example_hooks_def pca_def twist_def shape_def keys_def
      lower_bounds_def upper_bounds_def)

section \<open>writePointSet\<close>

text \<open>
  C1, as the code has it: the handle opened by \<open>writePointSet\<close> is closed on return, and
  no handle is opened when the update hook or the opening raises; the one exit that
  leaves a handle open is the write raising after the file was opened.
\<close>

theorem writePointSet_closes_unless_write_raises:
  "no_leak fs (snd (writePointSet hk tp self pname fname fs)) \<longleftrightarrow>
     \<not> (\<exists>coords e. update hk self pname = Inr coords
            \<and> open_error tp (fname @ ''_'' @ pname @ ''.dat'') = None
            \<and> write_error tp pname coords = Some e)"
proof (cases "update hk self pname")
  case (Inl e)
  then show ?thesis by (simp add: writePointSet_def no_leak_def)
next
  case (Inr coords)
  show ?thesis
  proof (cases "open_error tp (fname @ ''_'' @ pname @ ''.dat'')")
    case (Some e)
    then show ?thesis using Inr by (simp add: writePointSet_def openTecplot_def no_leak_def)
  next
    case None
    then show ?thesis using Inr
      by (cases "write_error tp pname coords")
        (simp_all add: writePointSet_def openTecplot_def writeTecplot1D_def closeTecplot_def
          no_leak_def)
  qed
qed

theorem writePointSet_closes_unless_write_raises_witness:
  "no_leak [] (snd (writePointSet example_hooks working_tecplot (example_sketch False) ''wing'' ''out'' []))
   \<and> update example_hooks (example_sketch False) ''wing'' = Inr [[0, 0, 0], [1, 0, 0], [1, 1, 0]]
   \<and> write_error working_tecplot ''wing'' [[0, 0, 0], [1, 0, 0], [1, 1, 0]] = None"
  using writePointSet_closes_unless_write_raises
    [of "[]" example_hooks working_tecplot "example_sketch False" "''wing''" "''out''"]
  by (simp add: example_hooks_def working_tecplot_def)

text \<open>
  The write of the point list raises: the exception leaves \<open>writePointSet\<close> before
  \<open>closeTecplot\<close> is reached, and the file \<open>out_wing.dat\<close> stays open.
\<close>

theorem writePointSet_leak_counterexample:
  "writePointSet example_hooks failing_tecplot (example_sketch False) ''wing'' ''out'' []
     = (Some (Raised ''write failed''),
        [\<lparr>path = ''out_wing.dat'', ndim = 3, is_open = True, zones = []\<rparr>])
   \<and> \<not> no_leak [] (snd (writePointSet example_hooks failing_tecplot (example_sketch False) ''wing'' ''out'' []))"
  by (simp add: writePointSet_def example_hooks_def failing_tecplot_def openTecplot_def
      writeTecplot1D_def no_leak_def)

text \<open>
  C9: when the update hook and the plotting library return normally,
  \<open>writePointSet(name, fileName)\<close> adds exactly one file, named \<open>fileName\<close> followed by
  \<open>_\<close>, \<open>name\<close> and \<open>.dat\<close>, opened with dimension 3 and closed again, whose only zone is
  \<open>name\<close> with the coordinates that the update hook returned for \<open>name\<close>, unchanged.
\<close>

theorem writePointSet_file:
  "update hk self pname = Inr coords \<Longrightarrow>
   open_error tp (fname @ ''_'' @ pname @ ''.dat'') = None \<Longrightarrow>
   write_error tp pname coords = None \<Longrightarrow>
   writePointSet hk tp self pname fname fs
     = (None, fs @ [\<lparr>path = fname @ ''_'' @ pname @ ''.dat'', ndim = 3, is_open = False,
                      zones = [(pname, coords)]\<rparr>])"
  by (simp add: writePointSet_def openTecplot_def writeTecplot1D_def closeTecplot_def)

theorem writePointSet_file_witness:
  "writePointSet example_hooks working_tecplot (example_sketch False) ''wing'' ''out'' []
     = (None, [\<lparr>path = ''out_wing.dat'', ndim = 3, is_open = False,
                 zones = [(''wing'', [[0, 0, 0], [1, 0, 0], [1, 1, 0]])]\<rparr>])"
  using writePointSet_file [of example_hooks "example_sketch False" "''wing''"
      "[[0, 0, 0], [1, 0, 0], [1, 1, 0]]" working_tecplot "''out''" "[]"]
  by (simp add: example_hooks_def working_tecplot_def)

section \<open>The constructor\<close>

text \<open>A positive integer is at least the power of two below its number of digits.\<close>

lemma bits_nonpos: "n \<le> 0 \<Longrightarrow> bits n = 0"
  by (simp add: bits.simps [of n])

lemma bits_pos: "0 < n \<Longrightarrow> bits n = Suc (bits (n div 2))"
  by (simp add: bits.simps [of n])

lemma bits_lower: "0 < n \<Longrightarrow> 2 ^ (bits n - 1) \<le> n"
proof (induction n rule: bits.induct)
  case (1 n)
  show ?case
  proof (cases "n div 2 \<le> 0")
    case True
    then show ?thesis using "1.prems" by (simp add: bits_pos bits_nonpos)
  next
    case False
    then have pos: "0 < n div 2" by simp
    have IH: "2 ^ (bits (n div 2) - 1) \<le> n div 2"
      using "1.IH" "1.prems" pos by simp
    have "0 < bits (n div 2)" using pos by (simp add: bits_pos)
    then have "(2::int) ^ bits (n div 2) = 2 * 2 ^ (bits (n div 2) - 1)"
      by (cases "bits (n div 2)") simp_all
    also have "\<dots> \<le> 2 * (n div 2)" using IH by simp
    also have "\<dots> \<le> n" by simp
    finally show ?thesis using "1.prems" by (simp add: bits_pos)
  qed
qed

lemma pow2_pos: "0 < pow2 k"
  by (simp add: pow2_def)

lemma pow2_mono: "a \<le> b \<Longrightarrow> pow2 a \<le> pow2 b"
proof -
  have eq: "pow2 k = 2 powi k" for k
    by (simp add: pow2_def power_int_def field_simps)
  assume "a \<le> b"
  then show ?thesis unfolding eq by (intro power_int_increasing) simp_all
qed

lemma pow2_nat: "pow2 (int k) = of_int (2 ^ k)"
  by (simp add: pow2_def)

lemma round_half_even_pos: "1 / 2 < x \<Longrightarrow> 1 \<le> round_half_even x"
proof -
  assume x: "1 / 2 < x"
  then have "0 \<le> \<lfloor>x\<rfloor>" by simp
  then consider "\<lfloor>x\<rfloor> = 0" | "1 \<le> \<lfloor>x\<rfloor>" by linarith
  then show ?thesis
  proof cases
    case 1
    then have "1 / 2 < x - of_int \<lfloor>x\<rfloor>" using x by simp
    then show ?thesis using 1 by (simp add: round_half_even_def Let_def)
  next
    case 2
    then show ?thesis by (simp add: round_half_even_def Let_def)
  qed
qed

text \<open>
  The spacing of the binary64 values around a positive integer is at most that integer,
  so a nonzero \<open>int\<close> never rounds to a zero.
\<close>

lemma ilog2_int_upper: "1 \<le> m \<Longrightarrow> ilog2 (of_int m) \<le> int (bits m) - 1"
proof -
  assume "1 \<le> m"
  have one: "bits 1 = 1" by (simp add: bits_pos bits_nonpos)
  show ?thesis by (simp add: ilog2_def quotient_of_int one Let_def)
qed

lemma spacing_below_int:
  assumes "1 \<le> m"
  shows "pow2 (max (ilog2 (of_int m) - 52) (- 1074)) \<le> of_int m"
proof -
  have pos: "0 < bits m" using assms by (simp add: bits_pos)
  have "max (ilog2 (of_int m) - 52) (- 1074) \<le> int (bits m - 1)"
    using ilog2_int_upper [OF assms] pos by simp
  then have "pow2 (max (ilog2 (of_int m) - 52) (- 1074)) \<le> pow2 (int (bits m - 1))"
    by (rule pow2_mono)
  also have "\<dots> = of_int (2 ^ (bits m - 1))" by (rule pow2_nat)
  also have "\<dots> \<le> of_int m" using bits_lower [of m] assms by (simp only: of_int_le_iff)
  finally show ?thesis .
qed

lemma round64_mag_int_pos:
  assumes "1 \<le> m" and "round64_mag (of_int m) = Some r"
  shows "0 < r"
proof -
  let ?e = "max (ilog2 (of_int m) - 52) (- 1074)"
  have "1 \<le> rat_of_int m / pow2 ?e"
    using spacing_below_int [OF assms(1)] pow2_pos [of ?e] by (simp add: field_simps)
  then have "1 / 2 < rat_of_int m / pow2 ?e" by linarith
  then have "1 \<le> round_half_even (rat_of_int m / pow2 ?e)"
    by (rule round_half_even_pos)
  then have "0 < rat_of_int (round_half_even (rat_of_int m / pow2 ?e)) * pow2 ?e"
    using pow2_pos [of ?e] by simp
  then show ?thesis
    using assms(2) by (auto simp: round64_mag_def Let_def split: if_splits)
qed

lemma round64_int_nonzero: "n \<noteq> 0 \<Longrightarrow> \<not> is_zero (round64 (of_int n))"
proof (cases "0 < n")
  case True
  then have "1 \<le> n" by simp
  from round64_mag_int_pos [OF this] True show ?thesis
    by (auto simp: round64_def is_zero_def split: option.splits)
next
  case False
  assume "n \<noteq> 0"
  with False have neg: "1 \<le> - n" by simp
  have "round64_mag (- rat_of_int n) = round64_mag (of_int (- n))" by simp
  with round64_mag_int_pos [OF neg] neg show ?thesis
    by (auto simp: round64_def is_zero_def split: option.splits simp del: of_int_minus)
qed

text \<open>The conversion of an operand, by the kind of number.\<close>

lemma to_double_zero: "is_zero_num x \<Longrightarrow> \<exists>s. to_double x = Inr s \<and> is_zero s"
  by (cases x) (auto simp: is_zero_num_def to_double_def round64_def is_zero_def)

lemma to_double_too_large: "too_large x \<Longrightarrow> to_double x = Inl OverflowError"
  by (cases x) (auto simp: too_large_def to_double_def)

lemma to_double_nonzero:
  "\<not> is_zero_num x \<Longrightarrow> \<not> too_large x \<Longrightarrow> \<exists>s. to_double x = Inr s \<and> \<not> is_zero s"
  by (cases x) (auto simp: is_zero_num_def too_large_def to_double_def round64_int_nonzero)

lemma to_double_fits: "\<not> too_large x \<Longrightarrow> \<exists>t. to_double x = Inr t"
  by (cases x) (auto simp: too_large_def to_double_def)

lemma recip_finite: "q \<noteq> 0 \<Longrightarrow> ieee_div (Num 1) (Num q) = round64 (1 / q)"
  by (simp add: ieee_div_def is_inf_def is_zero_def rat_of_def)

text \<open>
  C10, as the code has it: once the constructor of the base class has returned, and for
  \<open>scale\<close> and \<open>projTol\<close> of the types \<open>int\<close> and \<open>float\<close>, the constructor raises
  \<open>ZeroDivisionError\<close> for a zero scale (\<open>0\<close>, \<open>0.0\<close> or \<open>-0.0\<close>) and
  \<open>OverflowError\<close> for an \<open>int\<close> scale or tolerance too large for a float; in every other
  case it succeeds and stores the scale as \<open>modelScale\<close>, the binary64 quotient of
  \<open>1.0\<close> by the scale as \<open>meshScale\<close>, and the binary64 product of the tolerance and
  \<open>meshScale\<close> as \<open>projTol\<close>. For a finite float scale the quotient is the exact inverse
  rounded to binary64.
\<close>

theorem init_scale_python:
  assumes "super_init fname = Inr base"
  shows "(is_zero_num scl \<longrightarrow> DVGeoSketch_init super_init fname cm scl tol = Inl ZeroDivisionError)
    \<and> (too_large scl \<longrightarrow> DVGeoSketch_init super_init fname cm scl tol = Inl OverflowError)
    \<and> (\<not> is_zero_num scl \<and> \<not> too_large scl \<and> too_large tol \<longrightarrow>
          DVGeoSketch_init super_init fname cm scl tol = Inl OverflowError)
    \<and> (\<not> is_zero_num scl \<and> \<not> too_large scl \<and> \<not> too_large tol \<longrightarrow>
          (\<exists>self s t. DVGeoSketch_init super_init fname cm scl tol = Inr self
              \<and> to_double scl = Inr s \<and> to_double tol = Inr t
              \<and> modelScale self = scl
              \<and> meshScale self = ieee_div (Num 1) s
              \<and> projTol self = float_mul t (meshScale self)))
    \<and> (\<forall>q. scl = PyFloat (Num q) \<and> q \<noteq> 0 \<longrightarrow> ieee_div (Num 1) (Num q) = round64 (1 / q))"
proof (intro conjI impI allI)
  assume "is_zero_num scl"
  then obtain s where "to_double scl = Inr s" "is_zero s" using to_double_zero by blast
  then show "DVGeoSketch_init super_init fname cm scl tol = Inl ZeroDivisionError"
    using assms by (simp add: DVGeoSketch_init_def float_div_def)
next
  assume "too_large scl"
  then show "DVGeoSketch_init super_init fname cm scl tol = Inl OverflowError"
    using assms by (simp add: DVGeoSketch_init_def to_double_too_large)
next
  assume a: "\<not> is_zero_num scl \<and> \<not> too_large scl \<and> too_large tol"
  then obtain s where "to_double scl = Inr s" "\<not> is_zero s" using to_double_nonzero by blast
  then show "DVGeoSketch_init super_init fname cm scl tol = Inl OverflowError"
    using assms a by (simp add: DVGeoSketch_init_def float_div_def to_double_too_large)
next
  assume a: "\<not> is_zero_num scl \<and> \<not> too_large scl \<and> \<not> too_large tol"
  then obtain s where s: "to_double scl = Inr s" "\<not> is_zero s" using to_double_nonzero by blast
  from a obtain t where t: "to_double tol = Inr t" using to_double_fits by blast
  show "\<exists>self s t. DVGeoSketch_init super_init fname cm scl tol = Inr self
              \<and> to_double scl = Inr s \<and> to_double tol = Inr t
              \<and> modelScale self = scl
              \<and> meshScale self = ieee_div (Num 1) s
              \<and> projTol self = float_mul t (meshScale self)"
    using assms s t by (simp add: DVGeoSketch_init_def float_div_def)
next
  fix q
  assume "scl = PyFloat (Num q) \<and> q \<noteq> 0"
  then show "ieee_div (Num 1) (Num q) = round64 (1 / q)" by (simp add: recip_finite)
qed

text \<open>
  The values of \<open>1.0 / 0.0254\<close> and of \<open>0.01 * (1.0 / 0.0254)\<close>, and the conversions and
  operations on small integers.
\<close>

lemma example_numbers_floats: "is_float64 inch_scale \<and> is_float64 default_projTol"
  unfolding inch_scale_def default_projTol_def by code_simp

lemma recip_inch_scale: "ieee_div (Num 1) inch_scale = Num (1385211499560315 / 35184372088832)"
  unfolding inch_scale_def by code_simp

lemma default_projTol_per_inch:
  "float_mul default_projTol (Num (1385211499560315 / 35184372088832))
     = Num (7092282877748813 / 18014398509481984)"
  unfolding default_projTol_def by code_simp

lemma four_floats:
  "to_double (PyInt 4) = Inr (Num 4) \<and> ieee_div (Num 1) (Num 4) = Num (1 / 4)
   \<and> to_double (PyInt 3) = Inr (Num 3) \<and> float_mul (Num 3) (Num (1 / 4)) = Num (3 / 4)"
  by code_simp

theorem init_scale_python_witness:
  "(\<exists>self. DVGeoSketch_init example_base_init ''wing.vsp3'' () (PyFloat inch_scale) (PyFloat default_projTol) = Inr self
       \<and> modelScale self = PyFloat inch_scale
       \<and> meshScale self = Num (1385211499560315 / 35184372088832)
       \<and> projTol self = Num (7092282877748813 / 18014398509481984))
   \<and> (\<exists>self. DVGeoSketch_init example_base_init ''wing.vsp3'' () (PyInt 4) (PyInt 3) = Inr self
       \<and> modelScale self = PyInt 4 \<and> meshScale self = Num (1 / 4) \<and> projTol self = Num (3 / 4))
   \<and> DVGeoSketch_init example_base_init ''wing.vsp3'' () (PyInt 0) (PyFloat default_projTol) = Inl ZeroDivisionError
   \<and> DVGeoSketch_init example_base_init ''wing.vsp3'' () (PyFloat NegZero) (PyFloat default_projTol) = Inl ZeroDivisionError
   \<and> DVGeoSketch_init example_base_init ''wing.vsp3'' () (PyInt (2 ^ 1024)) (PyFloat default_projTol) = Inl OverflowError
   \<and> DVGeoSketch_init example_base_init ''wing.vsp3'' () (PyFloat inch_scale) (PyInt (- (10 ^ 400))) = Inl OverflowError"
proof -
  have base: "example_base_init ''wing.vsp3'' = Inr \<lparr>fileName = ''wing.vsp3'', DVComposite = None\<rparr>"
    by (simp add: example_base_init_def)
  note inst = init_scale_python [where super_init = example_base_init and fname = "''wing.vsp3''"
      and cm = "()", OF base]
  have "\<exists>self. DVGeoSketch_init example_base_init ''wing.vsp3'' () (PyFloat inch_scale) (PyFloat default_projTol) = Inr self
       \<and> modelScale self = PyFloat inch_scale
       \<and> meshScale self = Num (1385211499560315 / 35184372088832)
       \<and> projTol self = Num (7092282877748813 / 18014398509481984)"
    using inst [where scl = "PyFloat inch_scale" and tol = "PyFloat default_projTol"] recip_inch_scale default_projTol_per_inch
    by (auto simp: is_zero_num_def too_large_def is_zero_def to_double_def inch_scale_def)
  moreover have "\<exists>self. DVGeoSketch_init example_base_init ''wing.vsp3'' () (PyInt 4) (PyInt 3) = Inr self
       \<and> modelScale self = PyInt 4 \<and> meshScale self = Num (1 / 4) \<and> projTol self = Num (3 / 4)"
    using inst [where scl = "PyInt 4" and tol = "PyInt 3"] four_floats
    by (auto simp: is_zero_num_def too_large_def)
  moreover have "DVGeoSketch_init example_base_init ''wing.vsp3'' () (PyInt 0) (PyFloat default_projTol) = Inl ZeroDivisionError"
    using inst [where scl = "PyInt 0" and tol = "PyFloat default_projTol"] by (simp add: is_zero_num_def)
  moreover have "DVGeoSketch_init example_base_init ''wing.vsp3'' () (PyFloat NegZero) (PyFloat default_projTol) = Inl ZeroDivisionError"
    using inst [where scl = "PyFloat NegZero" and tol = "PyFloat default_projTol"] by (simp add: is_zero_num_def is_zero_def)
  moreover have "DVGeoSketch_init example_base_init ''wing.vsp3'' () (PyInt (2 ^ 1024)) (PyFloat default_projTol) = Inl OverflowError"
    using inst [where scl = "PyInt (2 ^ 1024)" and tol = "PyFloat default_projTol"] by (simp add: too_large_def)
  moreover have "DVGeoSketch_init example_base_init ''wing.vsp3'' () (PyFloat inch_scale) (PyInt (- (10 ^ 400))) = Inl OverflowError"
    using inst [where scl = "PyFloat inch_scale" and tol = "PyInt (- (10 ^ 400))"]
    by (simp add: is_zero_num_def too_large_def is_zero_def inch_scale_def)
  ultimately show ?thesis by blast
qed

text \<open>
  A scale that is not zero and still fails: \<open>10\<^sup>4\<^sup>0\<^sup>0\<close> is an \<open>int\<close> too large to convert
  to a float, and \<open>1.0 / scale\<close> raises \<open>OverflowError\<close>.
\<close>

theorem init_scale_overflow_counterexample:
  "\<not> is_zero_num (PyInt (10 ^ 400))
   \<and> DVGeoSketch_init example_base_init ''wing.vsp3'' () (PyInt (10 ^ 400)) (PyFloat default_projTol)
       = Inl OverflowError"
  by (simp add: is_zero_num_def DVGeoSketch_init_def example_base_init_def to_double_def)

end
